theory Spec2Isabelle
  imports Main "HOL-Library.Word" "HOL-Library.AList"
begin

section \<open>The embedded interpreter as the manager sees it\<close>

text \<open>
  \<open>PythonManager\<close> (PythonBindings.cpp) talks to the interpreter through pybind11:
  it imports modules, asks an object whether it has an attribute, calls attributes and
  casts results to \<open>bool\<close>. Each of these either returns or throws an exception that is a
  \<open>std::exception\<close>; an exception is the left summand of a sum, carrying its \<open>what()\<close>.
\<close>

type_synonym exn = string

text \<open>
  The values that cross the boundary. \<open>PyObj t\<close> stands for any other object, \<open>t\<close>
  being what the \<open>nb_bool\<close> slot of its type answers (\<open>None\<close>: the type has no such
  slot, or the slot raises).
\<close>

datatype pyvalue =
    PyNone
  | PyBool bool
  | PyInt int
  | PyStr string
  | PyObj "bool option"

text \<open>
  An attribute is modelled by what calling it does (an attribute that is not callable
  raises on every call); an object by its attributes, so that \<open>py::hasattr\<close> is
  \<open>obj m \<noteq> None\<close>. What a call does depends on its arguments alone: the state of the
  interpreter, through which one call could change what a later one does, is not part
  of the model.
\<close>

type_synonym py_callable = "pyvalue list \<Rightarrow> exn + pyvalue"

type_synonym py_object = "string \<Rightarrow> py_callable option"

text \<open>
  \<open>result.cast<bool>()\<close>: pybind11's \<open>bool\<close> caster takes \<open>True\<close> and \<open>False\<close>,
  takes \<open>None\<close> as false, and otherwise asks the \<open>nb_bool\<close> slot of the object's type.
  An \<open>int\<close> has the slot. A \<open>str\<close> has none (its truth value in Python comes from its
  length, which the caster does not ask), so casting a \<open>str\<close> throws \<open>cast_error\<close>, as
  does casting any object without a slot that answers.
\<close>

fun cast_bool :: "pyvalue \<Rightarrow> exn + bool" where
  "cast_bool (PyBool b) = Inr b"
| "cast_bool PyNone = Inr False"
| "cast_bool (PyInt i) = Inr (i \<noteq> 0)"
| "cast_bool (PyStr s) = Inl ''Unable to cast Python instance to C++ type''"
| "cast_bool (PyObj (Some b)) = Inr b"
| "cast_bool (PyObj None) = Inl ''Unable to cast Python instance to C++ type''"

text \<open>
  What the process around the manager decides: whether a \<open>py::scoped_interpreter\<close> can
  be constructed when the manager holds none (\<open>new_interpreter\<close>, \<open>Some e\<close>: the
  constructor throws \<open>e\<close>), and what \<open>py::module::import\<close> gives for a module name.
\<close>

record py_env =
  new_interpreter :: "exn option"
  py_import :: "string \<Rightarrow> exn + py_object"

section \<open>Paths (\<open>std::filesystem::path\<close>)\<close>

text \<open>
  \<open>filename()\<close> is what follows the last directory separator. \<open>extension()\<close> starts at
  the rightmost period of the filename, unless the filename is \<open>.\<close> or \<open>..\<close> or that
  period is its first character; \<open>stem()\<close> is the filename without its extension.
  Root names (a drive letter before a colon) are not told apart from the filename.
\<close>

definition is_separator :: "char \<Rightarrow> bool" where
  "is_separator c = (c = CHR ''/'' \<or> c = CHR 0x5C)"

definition path_filename :: "string \<Rightarrow> string" where
  "path_filename p = rev (takeWhile (\<lambda>c. \<not> is_separator c) (rev p))"

definition path_extension :: "string \<Rightarrow> string" where
  "path_extension p =
     (let f = path_filename p;
          tail = takeWhile (\<lambda>c. c \<noteq> CHR ''.'') (rev f)
      in if f = ''.'' \<or> f = ''..'' then []
         else if length f \<le> Suc (length tail) then []
         else CHR ''.'' # rev tail)"

definition path_stem :: "string \<Rightarrow> string" where
  "path_stem p =
     (let f = path_filename p in take (length f - length (path_extension p)) f)"

text \<open>
  One entry of a \<open>directory_iterator\<close>: its path and whether it is a regular file. The
  plugin directory is \<open>None\<close> when \<open>std::filesystem::exists\<close> says no, and its listing
  in enumeration order otherwise.
\<close>

record dir_entry =
  entry_path :: string
  is_regular_file :: bool

type_synonym directory = "dir_entry list option"

section \<open>The manager (PythonManager.h)\<close>

text \<open>
  \<open>struct PluginInfo\<close>; \<open>instance_ptr\<close> is a \<open>void*\<close> to a \<open>py::object\<close>, \<open>None\<close> for
  \<open>nullptr\<close>.
\<close>

record PluginInfo =
  filepath :: string
  name :: string
  instance_ptr :: "py_object option"
  loaded :: bool

text \<open>
  \<open>loadedPlugins\<close> is a \<open>std::unordered_map\<close>: an association list whose order is the
  order a range-for meets the entries in; \<open>find\<close> is \<open>map_of\<close>, \<open>operator[]\<close> with an
  assignment is \<open>AList.update\<close>, \<open>erase\<close> is \<open>AList.delete\<close>. The container keeps
  one entry for a key, which is \<open>distinct (map fst xs)\<close> here. \<open>interpreter\<close> tells
  whether the \<open>unique_ptr\<close> holds an interpreter.
\<close>

record PythonManager =
  pythonInitialized :: bool
  interpreter :: bool
  loadedPlugins :: "(string \<times> PluginInfo) list"
  lastError :: string

definition PythonManager_new :: PythonManager where
  "PythonManager_new =
     \<lparr>pythonInitialized = False, interpreter = False, loadedPlugins = [], lastError = []\<rparr>"


definition GetLastError :: "PythonManager \<Rightarrow> string" where
  "GetLastError s = lastError s"

definition SetError :: "string \<Rightarrow> PythonManager \<Rightarrow> PythonManager" where
  "SetError error s = s\<lparr>lastError := error\<rparr>"

subsection \<open>Calling plugins\<close>

text \<open>
  What a call into a plugin leaves behind for an observer: the plugin, the attribute and
  how the call ended. The functions that call plugins return the calls they made, in
  order, beside their result.
\<close>

datatype call_event = Invoked string string "exn + pyvalue"

text \<open>\<open>PythonManager::CallPluginMethod\<close>\<close>

definition CallPluginMethod ::
  "PythonManager \<Rightarrow> string \<Rightarrow> string \<Rightarrow> bool \<times> call_event list" where
  "CallPluginMethod s pluginName method =
     (case map_of (loadedPlugins s) pluginName of
        None \<Rightarrow> (False, [])
      | Some info \<Rightarrow>
          if \<not> loaded info then (False, [])
          else (case instance_ptr info of
                  None \<Rightarrow> (False, [])
                | Some plugin \<Rightarrow>
                    (case plugin method of
                       None \<Rightarrow> (True, [])
                     | Some f \<Rightarrow>
                         (case f [] of
                            Inl e \<Rightarrow> (False, [Invoked pluginName method (Inl e)])
                          | Inr v \<Rightarrow> (True, [Invoked pluginName method (Inr v)])))))"

text \<open>
  \<open>PythonManager::CallAllPlugins\<close>: the range-for over \<open>loadedPlugins\<close>, with
  \<open>allSucceeded\<close> and the calls made so far as accumulators.
\<close>

fun CallAllPlugins_loop ::
  "PythonManager \<Rightarrow> string \<Rightarrow> (string \<times> PluginInfo) list \<Rightarrow> bool \<Rightarrow> call_event list
     \<Rightarrow> bool \<times> call_event list" where
  "CallAllPlugins_loop s method [] allSucceeded tr = (allSucceeded, tr)"
| "CallAllPlugins_loop s method ((pluginName, plugin) # rest) allSucceeded tr =
     (if loaded plugin then
        (case CallPluginMethod s pluginName method of
           (ok, t) \<Rightarrow>
             CallAllPlugins_loop s method rest (if \<not> ok then False else allSucceeded) (tr @ t))
      else CallAllPlugins_loop s method rest allSucceeded tr)"

definition CallAllPlugins :: "PythonManager \<Rightarrow> string \<Rightarrow> bool \<times> call_event list" where
  "CallAllPlugins s method = CallAllPlugins_loop s method (loadedPlugins s) True []"

text \<open>
  \<open>PythonManager::HandleCheat\<close>. The command object is built first: import
  \<open>sc4_types\<close>, take its attribute \<open>CheatCommand\<close>, call it with the id and the text.
\<close>

definition make_cheat_command :: "py_env \<Rightarrow> 32 word \<Rightarrow> string \<Rightarrow> exn + pyvalue" where
  "make_cheat_command env cheatID cheatText =
     (case py_import env ''sc4_types'' of
        Inl e \<Rightarrow> Inl e
      | Inr sc4_types \<Rightarrow>
          (case sc4_types ''CheatCommand'' of
             None \<Rightarrow> Inl ''AttributeError''
           | Some CheatCommand \<Rightarrow> CheatCommand [PyInt (uint cheatID), PyStr cheatText]))"

text \<open>
  The range-for inside the \<open>try\<close> block: it ends with \<open>Inr True\<close> at the \<open>return true\<close>
  in the loop, with \<open>Inr False\<close> when it falls through to \<open>return false\<close>, and with
  \<open>Inl e\<close> when a call or a cast throws, which leaves the loop for the \<open>catch\<close>.
\<close>

fun HandleCheat_loop ::
  "pyvalue \<Rightarrow> (string \<times> PluginInfo) list \<Rightarrow> call_event list
     \<Rightarrow> (exn + bool) \<times> call_event list" where
  "HandleCheat_loop cheatCommand [] tr = (Inr False, tr)"
| "HandleCheat_loop cheatCommand ((pluginName, plugin) # rest) tr =
     (if loaded plugin then
        (case instance_ptr plugin of
           None \<Rightarrow> HandleCheat_loop cheatCommand rest tr
         | Some pluginObj \<Rightarrow>
             (case pluginObj ''handle_cheat'' of
                None \<Rightarrow> HandleCheat_loop cheatCommand rest tr
              | Some f \<Rightarrow>
                  (case f [cheatCommand] of
                     Inl e \<Rightarrow> (Inl e, tr @ [Invoked pluginName ''handle_cheat'' (Inl e)])
                   | Inr result \<Rightarrow>
                       (case cast_bool result of
                          Inl e \<Rightarrow>
                            (Inl e, tr @ [Invoked pluginName ''handle_cheat'' (Inr result)])
                        | Inr b \<Rightarrow>
                            if b then
                              (Inr True, tr @ [Invoked pluginName ''handle_cheat'' (Inr result)])
                            else
                              HandleCheat_loop cheatCommand rest
                                (tr @ [Invoked pluginName ''handle_cheat'' (Inr result)])))))
      else HandleCheat_loop cheatCommand rest tr)"

definition HandleCheat ::
  "py_env \<Rightarrow> PythonManager \<Rightarrow> 32 word \<Rightarrow> string \<Rightarrow> bool \<times> call_event list" where
  "HandleCheat env s cheatID cheatText =
     (if \<not> pythonInitialized s then (False, [])
      else (case make_cheat_command env cheatID cheatText of
              Inl e \<Rightarrow> (False, [])
            | Inr cheatCommand \<Rightarrow>
                (case HandleCheat_loop cheatCommand (loadedPlugins s) [] of
                   (Inl e, tr) \<Rightarrow> (False, tr)
                 | (Inr b, tr) \<Rightarrow> (b, tr))))"

subsection \<open>Discovering and loading plugins\<close>

text \<open>
  \<open>PythonManager::DiscoverPluginFiles\<close>: the loop over the directory pushes a path to
  the back of \<open>pluginFiles\<close>. \<open>filename[0]\<close> of an empty \<open>std::string\<close> is the
  terminating zero, which is not an underscore.
\<close>

fun DiscoverPluginFiles_loop :: "dir_entry list \<Rightarrow> string list \<Rightarrow> string list" where
  "DiscoverPluginFiles_loop [] pluginFiles = pluginFiles"
| "DiscoverPluginFiles_loop (entry # rest) pluginFiles =
     (if is_regular_file entry \<and> path_extension (entry_path entry) = ''.py'' then
        (case path_filename (entry_path entry) of
           [] \<Rightarrow> DiscoverPluginFiles_loop rest (pluginFiles @ [entry_path entry])
         | c # cs \<Rightarrow>
             if c \<noteq> CHR ''_'' then
               DiscoverPluginFiles_loop rest (pluginFiles @ [entry_path entry])
             else DiscoverPluginFiles_loop rest pluginFiles)
      else DiscoverPluginFiles_loop rest pluginFiles)"

definition DiscoverPluginFiles :: "directory \<Rightarrow> string list" where
  "DiscoverPluginFiles pluginsDir =
     (case pluginsDir of
        None \<Rightarrow> []
      | Some entries \<Rightarrow> DiscoverPluginFiles_loop entries [])"

text \<open>
  \<open>PythonManager::LoadPlugin\<close>. The import is the only step of the \<open>try\<close> block that
  throws; the instance is not created (\<open>instance_ptr = nullptr\<close>).
\<close>

definition LoadPlugin :: "py_env \<Rightarrow> string \<Rightarrow> PythonManager \<Rightarrow> bool \<times> PythonManager" where
  "LoadPlugin env file s =
     (let pluginName = path_stem file in
      case map_of (loadedPlugins s) pluginName of
        Some found \<Rightarrow> (True, s)
      | None \<Rightarrow>
          (case py_import env pluginName of
             Inl e \<Rightarrow> (False, SetError (''Failed to load plugin '' @ file @ '': '' @ e) s)
           | Inr pluginModule \<Rightarrow>
               (True,
                s\<lparr>loadedPlugins :=
                    AList.update pluginName
                      \<lparr>filepath = file, name = pluginName, instance_ptr = None, loaded = True\<rparr>
                      (loadedPlugins s)\<rparr>)))"

text \<open>\<open>PythonManager::LoadPlugins\<close>, the loop with \<open>allLoaded\<close> as accumulator.\<close>

fun LoadPlugins_loop ::
  "py_env \<Rightarrow> string list \<Rightarrow> bool \<Rightarrow> PythonManager \<Rightarrow> bool \<times> PythonManager" where
  "LoadPlugins_loop env [] allLoaded s = (allLoaded, s)"
| "LoadPlugins_loop env (file # rest) allLoaded s =
     (case LoadPlugin env file s of
        (ok, s') \<Rightarrow> LoadPlugins_loop env rest (if \<not> ok then False else allLoaded) s')"

definition LoadPlugins :: "py_env \<Rightarrow> directory \<Rightarrow> PythonManager \<Rightarrow> bool \<times> PythonManager" where
  "LoadPlugins env pluginsDir s =
     (if \<not> pythonInitialized s then (False, SetError ''Python not initialized'' s)
      else LoadPlugins_loop env (DiscoverPluginFiles pluginsDir) True s)"

text \<open>
  \<open>PythonManager::UnloadPlugin\<close>: the \<open>shutdown\<close> call, then the entry is erased.
  \<open>CallPluginMethod\<close> catches what the call throws, so the \<open>catch\<close> here is not reached.
\<close>

definition UnloadPlugin :: "string \<Rightarrow> PythonManager \<Rightarrow> PythonManager \<times> call_event list" where
  "UnloadPlugin pluginName s =
     (case map_of (loadedPlugins s) pluginName of
        None \<Rightarrow> (s, [])
      | Some found \<Rightarrow>
          (s\<lparr>loadedPlugins := AList.delete pluginName (loadedPlugins s)\<rparr>,
           snd (CallPluginMethod s pluginName ''shutdown'')))"

text \<open>
  \<open>PythonManager::UnloadPlugins\<close>: every loaded entry with an instance gets the
  \<open>shutdown\<close> call and loses its instance; then the map is cleared.
\<close>

fun UnloadPlugins_loop ::
  "(string \<times> PluginInfo) list \<Rightarrow> PythonManager \<Rightarrow> call_event list
     \<Rightarrow> PythonManager \<times> call_event list" where
  "UnloadPlugins_loop [] s tr = (s, tr)"
| "UnloadPlugins_loop ((pluginName, plugin) # rest) s tr =
     (if loaded plugin \<and> instance_ptr plugin \<noteq> None then
        UnloadPlugins_loop rest
          (s\<lparr>loadedPlugins :=
               AList.update pluginName (plugin\<lparr>instance_ptr := None, loaded := False\<rparr>)
                 (loadedPlugins s)\<rparr>)
          (tr @ snd (CallPluginMethod s pluginName ''shutdown''))
      else UnloadPlugins_loop rest s tr)"

definition UnloadPlugins :: "PythonManager \<Rightarrow> PythonManager \<times> call_event list" where
  "UnloadPlugins s =
     (case UnloadPlugins_loop (loadedPlugins s) s [] of
        (s', tr) \<Rightarrow> (s'\<lparr>loadedPlugins := []\<rparr>, tr))"

subsection \<open>Starting the interpreter\<close>






section \<open>The city wrapper (CityWrapper.cpp)\<close>

text \<open>
  The wrapper holds a raw pointer to the game's \<open>cISC4City\<close>. The game's interfaces are
  not part of this repository; the methods the wrapper calls are the fields of
  \<open>host_city\<close>, over any type \<open>'c\<close> of city states. A method that changes the city
  returns the changed city. \<open>city_GetCityName\<close> gives the method's answer and the
  string's \<open>ToChar()\<close> (\<open>None\<close>: a null pointer); \<open>city_GetBudgetSimulator\<close> tells
  whether the pointer it returns is non-null.
\<close>

record 'c host_city =
  city_GetCityName :: "'c \<Rightarrow> bool \<times> string option"
  city_GetBudgetSimulator :: "'c \<Rightarrow> bool"
  budget_GetTotalFunds :: "'c \<Rightarrow> 64 word"
  budget_SetTotalFunds :: "64 word \<Rightarrow> 'c \<Rightarrow> bool \<times> 'c"
  budget_DepositFunds :: "64 word \<Rightarrow> 'c \<Rightarrow> bool \<times> 'c"
  budget_WithdrawFunds :: "64 word \<Rightarrow> 'c \<Rightarrow> bool \<times> 'c"
  city_IsInCityTimeSimulationMode :: "'c \<Rightarrow> bool"
  city_ToggleSimulationMode :: "'c \<Rightarrow> 'c"
  city_GetBirthDate :: "'c \<Rightarrow> 32 word"

text \<open>
  What C++ leaves undefined is a value here: following a null \<open>city\<close>, and negating
  the least \<open>int32_t\<close>.
\<close>

datatype fault = NullDereference | SignedOverflow

text \<open>
  The wrapper's fields, but for \<open>cachedStats\<close>: the statistics cache and the functions
  that fill it are left out.
\<close>

record 'c CityWrapper =
  city :: "'c option"
  statsCacheValid :: bool

definition CityWrapper_new :: "'c CityWrapper" where
  "CityWrapper_new = \<lparr>city = None, statsCacheValid = False\<rparr>"

text \<open>\<open>city->\<close>: the pointer is followed.\<close>

definition deref :: "'c option \<Rightarrow> fault + 'c" where
  "deref p = (case p of None \<Rightarrow> Inl NullDereference | Some c \<Rightarrow> Inr c)"

definition IsValid :: "'c CityWrapper \<Rightarrow> bool" where
  "IsValid w = (city w \<noteq> None)"

definition GetCityName :: "'c host_city \<Rightarrow> 'c CityWrapper \<Rightarrow> fault + string" where
  "GetCityName h w =
     (if \<not> IsValid w then Inr []
      else (case deref (city w) of
              Inl x \<Rightarrow> Inl x
            | Inr c \<Rightarrow>
                (case city_GetCityName h c of
                   (True, Some nameStr) \<Rightarrow> Inr nameStr
                 | (True, None) \<Rightarrow> Inr []
                 | (False, cityName) \<Rightarrow> Inr [])))"

text \<open>
  \<open>GetCityPopulation\<close> and \<open>GetCityTime\<close> fetch a simulator from the city and return 0
  whatever it is.
\<close>

definition GetCityPopulation :: "'c host_city \<Rightarrow> 'c CityWrapper \<Rightarrow> fault + 32 word" where
  "GetCityPopulation h w =
     (if \<not> IsValid w then Inr 0
      else (case deref (city w) of Inl x \<Rightarrow> Inl x | Inr c \<Rightarrow> Inr 0))"

definition GetCityMoney :: "'c host_city \<Rightarrow> 'c CityWrapper \<Rightarrow> fault + 32 word" where
  "GetCityMoney h w =
     (if \<not> IsValid w then Inr 0
      else (case deref (city w) of
              Inl x \<Rightarrow> Inl x
            | Inr c \<Rightarrow>
                if city_GetBudgetSimulator h c then
                  (let funds = budget_GetTotalFunds h c
                   in Inr (ucast (if 0 <s funds then funds else 0)))
                else Inr 0))"

definition SetCityMoney ::
  "'c host_city \<Rightarrow> 32 word \<Rightarrow> 'c CityWrapper \<Rightarrow> fault + bool \<times> 'c CityWrapper" where
  "SetCityMoney h amount w =
     (if \<not> IsValid w then Inr (False, w)
      else (case deref (city w) of
              Inl x \<Rightarrow> Inl x
            | Inr c \<Rightarrow>
                if city_GetBudgetSimulator h c then
                  (case budget_SetTotalFunds h (ucast amount) c of
                     (r, c') \<Rightarrow> Inr (r, w\<lparr>city := Some c'\<rparr>))
                else Inr (False, w)))"

definition AddCityMoney ::
  "'c host_city \<Rightarrow> 32 word \<Rightarrow> 'c CityWrapper \<Rightarrow> fault + bool \<times> 'c CityWrapper" where
  "AddCityMoney h amount w =
     (if \<not> IsValid w then Inr (False, w)
      else (case deref (city w) of
              Inl x \<Rightarrow> Inl x
            | Inr c \<Rightarrow>
                if city_GetBudgetSimulator h c then
                  (if 0 \<le>s amount then
                     (case budget_DepositFunds h (scast amount) c of
                        (r, c') \<Rightarrow> Inr (r, w\<lparr>city := Some c'\<rparr>))
                   else if sint amount = - (2 ^ 31) then Inl SignedOverflow
                   else
                     (case budget_WithdrawFunds h (scast (- amount)) c of
                        (r, c') \<Rightarrow> Inr (r, w\<lparr>city := Some c'\<rparr>)))
                else Inr (False, w)))"

definition GetMayorMode :: "'c host_city \<Rightarrow> 'c CityWrapper \<Rightarrow> fault + bool" where
  "GetMayorMode h w =
     (if \<not> IsValid w then Inr False
      else (case deref (city w) of
              Inl x \<Rightarrow> Inl x
            | Inr c \<Rightarrow> Inr (city_IsInCityTimeSimulationMode h c)))"

definition SetMayorMode ::
  "'c host_city \<Rightarrow> bool \<Rightarrow> 'c CityWrapper \<Rightarrow> fault + bool \<times> 'c CityWrapper" where
  "SetMayorMode h enabled w =
     (if \<not> IsValid w then Inr (False, w)
      else (case GetMayorMode h w of
              Inl x \<Rightarrow> Inl x
            | Inr currentMode \<Rightarrow>
                if currentMode \<noteq> enabled then
                  (case deref (city w) of
                     Inl x \<Rightarrow> Inl x
                   | Inr c \<Rightarrow> Inr (True, w\<lparr>city := Some (city_ToggleSimulationMode h c)\<rparr>))
                else Inr (True, w)))"

definition GetCityDate :: "'c host_city \<Rightarrow> 'c CityWrapper \<Rightarrow> fault + 32 word" where
  "GetCityDate h w =
     (if \<not> IsValid w then Inr 0
      else (case deref (city w) of
              Inl x \<Rightarrow> Inl x
            | Inr c \<Rightarrow> Inr (city_GetBirthDate h c)))"

definition GetCityTime :: "'c host_city \<Rightarrow> 'c CityWrapper \<Rightarrow> fault + 32 word" where
  "GetCityTime h w =
     (if \<not> IsValid w then Inr 0
      else (case deref (city w) of Inl x \<Rightarrow> Inl x | Inr c \<Rightarrow> Inr 0))"

section \<open>Vocabulary of the statements\<close>

text \<open>
  The handler an entry exposes under a name: the attribute of its instance, when the
  entry is flagged loaded and holds an instance.
\<close>

definition handler_of :: "PluginInfo \<Rightarrow> string \<Rightarrow> py_callable option" where
  "handler_of plugin method =
     (if loaded plugin then
        (case instance_ptr plugin of None \<Rightarrow> None | Some obj \<Rightarrow> obj method)
      else None)"

text \<open>
  One call, with the given arguments, for every entry of a list that exposes the
  handler, in the order of the list.
\<close>

definition calls_of ::
  "string \<Rightarrow> pyvalue list \<Rightarrow> (string \<times> PluginInfo) list \<Rightarrow> call_event list" where
  "calls_of method args xs =
     concat (map (\<lambda>(n, p). case handler_of p method of
                              None \<Rightarrow> []
                            | Some f \<Rightarrow> [Invoked n method (f args)]) xs)"

text \<open>The entry has no such handler, or its handler returns when called without arguments.\<close>

definition completes :: "PluginInfo \<Rightarrow> string \<Rightarrow> bool" where
  "completes plugin method =
     (case handler_of plugin method of None \<Rightarrow> True | Some f \<Rightarrow> \<not> isl (f []))"

text \<open>
  What an entry does with a cheat command: it \<open>passes\<close> (no handler, or the handler returns
  a value that casts to false), it \<open>claims\<close> the command (the handler returns a value that
  casts to true), or its handler \<open>raises\<close>.
\<close>

definition passes :: "pyvalue \<Rightarrow> PluginInfo \<Rightarrow> bool" where
  "passes cmd plugin =
     (case handler_of plugin ''handle_cheat'' of
        None \<Rightarrow> True
      | Some f \<Rightarrow> (case f [cmd] of Inl e \<Rightarrow> False | Inr r \<Rightarrow> cast_bool r = Inr False))"


definition raises :: "pyvalue \<Rightarrow> PluginInfo \<Rightarrow> bool" where
  "raises cmd plugin =
     (case handler_of plugin ''handle_cheat'' of
        None \<Rightarrow> False
      | Some f \<Rightarrow> isl (f [cmd]))"

text \<open>
  A directory entry the discovery is to keep: a regular file with the extension \<open>.py\<close>
  whose filename does not begin with an underscore.
\<close>

definition eligible :: "dir_entry \<Rightarrow> bool" where
  "eligible entry =
     (is_regular_file entry \<and> path_extension (entry_path entry) = ''.py''
      \<and> take 1 (path_filename (entry_path entry)) \<noteq> ''_'')"

text \<open>
  Sequences of calls that change the registry, each load with the interpreter's answers
  at that moment, and the names such a sequence loads.
\<close>

datatype registry_op = OpLoad py_env string | OpUnload string | OpUnloadAll

fun apply_op :: "registry_op \<Rightarrow> PythonManager \<Rightarrow> PythonManager" where
  "apply_op (OpLoad env file) s = snd (LoadPlugin env file s)"
| "apply_op (OpUnload pluginName) s = fst (UnloadPlugin pluginName s)"
| "apply_op OpUnloadAll s = fst (UnloadPlugins s)"

fun apply_ops :: "registry_op list \<Rightarrow> PythonManager \<Rightarrow> PythonManager" where
  "apply_ops [] s = s"
| "apply_ops (op # ops) s = apply_ops ops (apply_op op s)"

fun names_loaded :: "registry_op list \<Rightarrow> string set" where
  "names_loaded [] = {}"
| "names_loaded (OpLoad env file # ops) = insert (path_stem file) (names_loaded ops)"
| "names_loaded (OpUnload pluginName # ops) = names_loaded ops"
| "names_loaded (OpUnloadAll # ops) = names_loaded ops"

section \<open>Example inputs\<close>

text \<open>
  Interpreters in which every import succeeds but that of one module, and every module
  has the attributes \<open>CheatCommand\<close> (a constructor that returns an object) and \<open>path\<close>.
  In the example interpreter the module \<open>broken\<close> is the one that cannot be imported.
\<close>

definition example_module :: py_object where
  "example_module =
     (\<lambda>a. if a = ''CheatCommand'' then Some (\<lambda>args. Inr (PyObj (Some True)))
          else if a = ''path'' then Some (\<lambda>args. Inr PyNone)
          else None)"

definition env_without :: "string \<Rightarrow> py_env" where
  "env_without missing =
     \<lparr>new_interpreter = None,
      py_import = (\<lambda>m. if m = missing then Inl ''ImportError'' else Inr example_module)\<rparr>"

definition example_env :: py_env where
  "example_env = env_without ''broken''"

text \<open>Handlers that return a value, or raise, whatever their arguments.\<close>

definition returning :: "pyvalue \<Rightarrow> py_callable" where
  "returning v = (\<lambda>args. Inr v)"

definition raising :: "exn \<Rightarrow> py_callable" where
  "raising e = (\<lambda>args. Inl e)"

text \<open>A loaded entry whose instance has one attribute, and a running manager with entries.\<close>

definition plugin_with :: "string \<Rightarrow> string \<Rightarrow> py_callable \<Rightarrow> string \<times> PluginInfo" where
  "plugin_with n method f =
     (n, \<lparr>filepath = n @ ''.py'', name = n,
          instance_ptr = Some (\<lambda>m. if m = method then Some f else None), loaded = True\<rparr>)"

definition manager_with :: "(string \<times> PluginInfo) list \<Rightarrow> PythonManager" where
  "manager_with xs =
     \<lparr>pythonInitialized = True, interpreter = True, loadedPlugins = xs, lastError = []\<rparr>"

definition example_dir :: directory where
  "example_dir = Some
     [\<lparr>entry_path = ''PythonScripts/alpha.py'', is_regular_file = True\<rparr>,
      \<lparr>entry_path = ''PythonScripts/_private.py'', is_regular_file = True\<rparr>,
      \<lparr>entry_path = ''PythonScripts/beta.txt'', is_regular_file = True\<rparr>,
      \<lparr>entry_path = ''PythonScripts/broken.py'', is_regular_file = True\<rparr>,
      \<lparr>entry_path = ''PythonScripts/.py'', is_regular_file = True\<rparr>,
      \<lparr>entry_path = ''PythonScripts/pkg.py'', is_regular_file = False\<rparr>,
      \<lparr>entry_path = ''PythonScripts/gamma.py'', is_regular_file = True\<rparr>]"

text \<open>A game whose city is a number: the funds, with no other state.\<close>

definition example_host :: "64 word host_city" where
  "example_host =
     \<lparr>city_GetCityName = (\<lambda>c. (True, Some ''Springfield'')),
      city_GetBudgetSimulator = (\<lambda>c. True),
      budget_GetTotalFunds = (\<lambda>c. c),
      budget_SetTotalFunds = (\<lambda>a c. (True, a)),
      budget_DepositFunds = (\<lambda>a c. (True, c + a)),
      budget_WithdrawFunds = (\<lambda>a c. (True, c - a)),
      city_IsInCityTimeSimulationMode = (\<lambda>c. True),
      city_ToggleSimulationMode = (\<lambda>c. c),
      city_GetBirthDate = (\<lambda>c. 2000)\<rparr>"

section \<open>Calling a handler on one plugin and on all\<close>

lemma calls_of_Nil: "calls_of m a [] = []"
  by (simp add: calls_of_def)

lemma calls_of_Cons:
  "calls_of m a ((n, p) # xs) =
     (case handler_of p m of None \<Rightarrow> [] | Some f \<Rightarrow> [Invoked n m (f a)]) @ calls_of m a xs"
  by (simp add: calls_of_def)

lemma calls_of_append: "calls_of m a (xs @ ys) = calls_of m a xs @ calls_of m a ys"
  by (simp add: calls_of_def)

lemma CallPluginMethod_entry:
  assumes "map_of (loadedPlugins s) n = Some p" and "loaded p"
  shows "CallPluginMethod s n m =
           (instance_ptr p \<noteq> None \<and> completes p m, calls_of m [] [(n, p)])"
  using assms
  by (auto simp: CallPluginMethod_def completes_def handler_of_def calls_of_def
      split: option.splits sum.splits)

lemma CallAllPlugins_loop_eq:
  assumes "\<forall>(n, p) \<in> set xs. map_of (loadedPlugins s) n = Some p"
  shows "CallAllPlugins_loop s m xs acc tr =
     (acc \<and> (\<forall>(n, p) \<in> set xs. loaded p \<longrightarrow> instance_ptr p \<noteq> None \<and> completes p m),
      tr @ calls_of m [] xs)"
  using assms
proof (induction xs arbitrary: acc tr)
  case Nil
  then show ?case by (simp add: calls_of_Nil)
next
  case (Cons x xs)
  obtain n p where x: "x = (n, p)" by (cases x)
  have look: "map_of (loadedPlugins s) n = Some p" using Cons.prems x by simp
  have rest: "\<forall>(n, p) \<in> set xs. map_of (loadedPlugins s) n = Some p" using Cons.prems by simp
  show ?case
  proof (cases "loaded p")
    case True
    show ?thesis
      using True x Cons.IH[OF rest] CallPluginMethod_entry[OF look True, of m]
      by (auto simp: calls_of_Cons[of m "[]" n p xs] calls_of_def)
  next
    case False
    then have "handler_of p m = None" by (simp add: handler_of_def)
    then show ?thesis using False x Cons.IH[OF rest] by (simp add: calls_of_Cons)
  qed
qed

text \<open>
  C1, as the code has it. In a registry with one entry for a name, \<open>CallAllPlugins\<close> calls
  the handler once, in iteration order, on every entry that is flagged loaded and whose
  instance exposes it, whatever the earlier calls did (a call that raises is in the list
  and the later ones follow it). The result is true exactly when every entry flagged
  loaded holds an instance and no call raised.
\<close>

theorem CallAllPlugins_fan_out:
  assumes "distinct (map fst (loadedPlugins s))"
  shows "snd (CallAllPlugins s method) = calls_of method [] (loadedPlugins s) \<and>
         fst (CallAllPlugins s method) =
           (\<forall>(n, p) \<in> set (loadedPlugins s).
              loaded p \<longrightarrow> instance_ptr p \<noteq> None \<and> completes p method)"
proof -
  have "\<forall>(n, p) \<in> set (loadedPlugins s). map_of (loadedPlugins s) n = Some p"
    using assms by auto
  from CallAllPlugins_loop_eq[OF this] show ?thesis
    by (simp add: CallAllPlugins_def)
qed

text \<open>
  Three loaded plugins, the second of which raises in \<open>on_city_init\<close>: the first and
  the third are called once each, and the result is false.
\<close>

theorem CallAllPlugins_fan_out_witness:
  "distinct (map fst (loadedPlugins (manager_with
      [plugin_with ''a'' ''on_city_init'' (returning PyNone),
       plugin_with ''b'' ''on_city_init'' (raising ''boom''),
       plugin_with ''c'' ''on_city_init'' (returning PyNone)])))
   \<and> snd (CallAllPlugins (manager_with
      [plugin_with ''a'' ''on_city_init'' (returning PyNone),
       plugin_with ''b'' ''on_city_init'' (raising ''boom''),
       plugin_with ''c'' ''on_city_init'' (returning PyNone)]) ''on_city_init'')
     = [Invoked ''a'' ''on_city_init'' (Inr PyNone),
        Invoked ''b'' ''on_city_init'' (Inl ''boom''),
        Invoked ''c'' ''on_city_init'' (Inr PyNone)]
   \<and> fst (CallAllPlugins (manager_with
      [plugin_with ''a'' ''on_city_init'' (returning PyNone),
       plugin_with ''b'' ''on_city_init'' (raising ''boom''),
       plugin_with ''c'' ''on_city_init'' (returning PyNone)]) ''on_city_init'') = False"
  using CallAllPlugins_fan_out[of "manager_with
      [plugin_with ''a'' ''on_city_init'' (returning PyNone),
       plugin_with ''b'' ''on_city_init'' (raising ''boom''),
       plugin_with ''c'' ''on_city_init'' (returning PyNone)]" "''on_city_init''"]
  by (simp add: manager_with_def plugin_with_def returning_def raising_def calls_of_def
      handler_of_def completes_def)

text \<open>
  The claim's last part fails on the entry \<open>LoadPlugin\<close> makes, which is flagged loaded
  and has no instance: no handler is called, so none raises, and the result is false.
\<close>

theorem CallAllPlugins_counterexample:
  "CallAllPlugins
     (snd (LoadPlugin example_env ''PythonScripts/alpha.py''
        (PythonManager_new\<lparr>pythonInitialized := True\<rparr>))) ''on_city_init''
   = (False, [])"
  by (simp add: CallAllPlugins_def CallPluginMethod_def LoadPlugin_def Let_def
      PythonManager_new_def example_env_def env_without_def path_stem_def path_extension_def
      path_filename_def is_separator_def)

text \<open>
  C7, as the code has it. \<open>CallPluginMethod\<close> answers true exactly when the registry has
  an entry for the name that is flagged loaded and holds an instance, and the instance
  either lacks the handler (nothing is called) or has it and the call returns. So it
  answers false when there is no entry, the entry is not loaded or has no instance, or
  the handler raises.
\<close>

theorem CallPluginMethod_result:
  "fst (CallPluginMethod s pluginName method) =
     (\<exists>info plugin. map_of (loadedPlugins s) pluginName = Some info \<and> loaded info
        \<and> instance_ptr info = Some plugin
        \<and> (plugin method = None \<or> (\<exists>f v. plugin method = Some f \<and> f [] = Inr v)))
   \<and> snd (CallPluginMethod s pluginName method) =
     (case map_of (loadedPlugins s) pluginName of
        None \<Rightarrow> []
      | Some info \<Rightarrow> calls_of method [] [(pluginName, info)])"
  by (auto simp: CallPluginMethod_def calls_of_def handler_of_def
      split: option.splits sum.splits)

text \<open>
  A loaded plugin that has \<open>on_city_init\<close> and no \<open>shutdown\<close>: the call of \<open>shutdown\<close>
  answers true, and nothing was called.
\<close>

theorem CallPluginMethod_counterexample:
  "CallPluginMethod (manager_with [plugin_with ''a'' ''on_city_init'' (returning PyNone)])
     ''a'' ''shutdown'' = (True, [])"
  by (simp add: CallPluginMethod_def manager_with_def plugin_with_def returning_def)

section \<open>Routing a cheat\<close>

lemma HandleCheat_loop_passes:
  "list_all (\<lambda>(n, p). passes cmd p) pre \<Longrightarrow>
   HandleCheat_loop cmd (pre @ rest) tr =
   HandleCheat_loop cmd rest (tr @ calls_of ''handle_cheat'' [cmd] pre)"
proof (induction pre arbitrary: tr)
  case Nil
  then show ?case by (simp add: calls_of_Nil)
next
  case (Cons x pre)
  obtain n p where x: "x = (n, p)" by (cases x)
  from Cons.prems x have p: "passes cmd p" and pre: "list_all (\<lambda>(n, p). passes cmd p) pre"
    by simp_all
  show ?case
    using p x Cons.IH[OF pre]
    by (auto simp: passes_def handler_of_def calls_of_Cons
        split: option.splits sum.splits if_splits)
qed


lemma HandleCheat_loop_raises:
  "raises cmd p \<Longrightarrow>
   \<exists>e. HandleCheat_loop cmd ((n, p) # post) tr =
     (Inl e, tr @ calls_of ''handle_cheat'' [cmd] [(n, p)])"
  by (auto simp: raises_def handler_of_def calls_of_def
      split: option.splits sum.splits if_splits)




text \<open>
  C3, as the code has it. The \<open>try\<close> block of \<open>HandleCheat\<close> holds the whole loop: when
  the entries before some entry all pass and the handler of that entry raises, the
  exception is caught, \<open>HandleCheat\<close> returns false, and the handlers called are those up
  to that entry; no entry after it is called.
\<close>

theorem HandleCheat_exception_aborts:
  assumes "pythonInitialized s"
    and "make_cheat_command env cheatID cheatText = Inr cmd"
    and "loadedPlugins s = pre @ (n, p) # post"
    and "list_all (\<lambda>(n, p). passes cmd p) pre"
    and "raises cmd p"
  shows "HandleCheat env s cheatID cheatText =
           (False, calls_of ''handle_cheat'' [cmd] (pre @ [(n, p)]))"
proof -
  obtain e where "HandleCheat_loop cmd (loadedPlugins s) [] =
     (Inl e, calls_of ''handle_cheat'' [cmd] pre @ calls_of ''handle_cheat'' [cmd] [(n, p)])"
    using HandleCheat_loop_passes[OF assms(4), of "(n, p) # post" "[]"]
      HandleCheat_loop_raises[OF assms(5), of n post "calls_of ''handle_cheat'' [cmd] pre"]
      assms(3)
    by auto
  then show ?thesis using assms(1,2) by (simp add: HandleCheat_def calls_of_append)
qed

text \<open>
  \<open>a\<close> answers false, \<open>b\<close> raises, \<open>c\<close> would answer true: \<open>a\<close> and \<open>b\<close> are called,
  \<open>c\<close> is not, and the result is false.
\<close>

theorem HandleCheat_exception_aborts_witness:
  "HandleCheat example_env
     (manager_with [plugin_with ''a'' ''handle_cheat'' (returning (PyBool False)),
                    plugin_with ''b'' ''handle_cheat'' (raising ''boom''),
                    plugin_with ''c'' ''handle_cheat'' (returning (PyBool True))])
     0x6990 ''fund''
   = (False, [Invoked ''a'' ''handle_cheat'' (Inr (PyBool False)),
              Invoked ''b'' ''handle_cheat'' (Inl ''boom'')])"
  using HandleCheat_exception_aborts[of
      "manager_with [plugin_with ''a'' ''handle_cheat'' (returning (PyBool False)),
                     plugin_with ''b'' ''handle_cheat'' (raising ''boom''),
                     plugin_with ''c'' ''handle_cheat'' (returning (PyBool True))]"
      example_env "0x6990" "''fund''" "PyObj (Some True)"
      "[plugin_with ''a'' ''handle_cheat'' (returning (PyBool False))]" "''b''"
      "snd (plugin_with ''b'' ''handle_cheat'' (raising ''boom''))"
      "[plugin_with ''c'' ''handle_cheat'' (returning (PyBool True))]"]
  by (simp add: manager_with_def plugin_with_def returning_def raising_def example_env_def env_without_def example_module_def
      make_cheat_command_def passes_def raises_def handler_of_def calls_of_def)

text \<open>
  The claim fails: \<open>a\<close> raises and \<open>b\<close>, iterated after it, would claim the command;
  \<open>b\<close> is not called and the route ends with false.
\<close>

theorem HandleCheat_exception_counterexample:
  "HandleCheat example_env
     (manager_with [plugin_with ''a'' ''handle_cheat'' (raising ''boom''),
                    plugin_with ''b'' ''handle_cheat'' (returning (PyBool True))])
     0x230E27AC ''power''
   = (False, [Invoked ''a'' ''handle_cheat'' (Inl ''boom'')])"
  by (simp add: HandleCheat_def manager_with_def plugin_with_def returning_def raising_def example_env_def env_without_def
      example_module_def make_cheat_command_def)

text \<open>
  A handler that returns a \<open>str\<close> neither claims nor passes: the cast throws, and the
  route ends there with false, as it does after a handler that raises.
\<close>

lemma HandleCheat_str_result:
  "HandleCheat example_env
     (manager_with [plugin_with ''a'' ''handle_cheat'' (returning (PyStr ''yes'')),
                    plugin_with ''b'' ''handle_cheat'' (returning (PyBool True))])
     0x6990 ''fund''
   = (False, [Invoked ''a'' ''handle_cheat'' (Inr (PyStr ''yes''))])"
  "HandleCheat example_env
     (manager_with [plugin_with ''a'' ''handle_cheat'' (returning (PyStr [])),
                    plugin_with ''b'' ''handle_cheat'' (returning (PyBool True))])
     0x6990 ''fund''
   = (False, [Invoked ''a'' ''handle_cheat'' (Inr (PyStr []))])"
  by (simp_all add: HandleCheat_def manager_with_def plugin_with_def returning_def
      example_env_def env_without_def example_module_def make_cheat_command_def)

section \<open>Loading and unloading\<close>

lemma update_key_set: "fst ` set (AList.update k v al) = insert k (fst ` set al)"
  by (induction al) auto

lemma delete_key_set: "fst ` set (AList.delete k al) \<subseteq> fst ` set al"
  by (induction al) auto

lemma LoadPlugin_present:
  "map_of (loadedPlugins s) (path_stem file) = Some info \<Longrightarrow>
   LoadPlugin env file s = (True, s)"
  by (simp add: LoadPlugin_def)

lemma LoadPlugin_keys:
  "fst ` set (loadedPlugins (snd (LoadPlugin env file s))) =
     fst ` set (loadedPlugins s) \<union>
       (if \<not> isl (py_import env (path_stem file)) then {path_stem file} else {})"
proof (cases "map_of (loadedPlugins s) (path_stem file)")
  case None
  then show ?thesis
    by (cases "py_import env (path_stem file)")
       (simp_all add: LoadPlugin_def Let_def SetError_def update_key_set)
next
  case (Some info)
  then have "path_stem file \<in> fst ` set (loadedPlugins s)"
    by (metis map_of_eq_None_iff option.distinct(1))
  with Some show ?thesis by (auto simp: LoadPlugin_def Let_def)
qed

lemma LoadPlugin_distinct:
  "distinct (map fst (loadedPlugins s)) \<Longrightarrow>
   distinct (map fst (loadedPlugins (snd (LoadPlugin env file s))))"
  by (auto simp: LoadPlugin_def Let_def SetError_def distinct_update
      split: option.splits sum.splits)

lemma UnloadPlugin_distinct:
  "distinct (map fst (loadedPlugins s)) \<Longrightarrow>
   distinct (map fst (loadedPlugins (fst (UnloadPlugin n s))))"
  by (auto simp: UnloadPlugin_def distinct_delete split: option.splits)

lemma UnloadPlugins_empty: "loadedPlugins (fst (UnloadPlugins s)) = []"
  by (simp add: UnloadPlugins_def split: prod.splits)

lemma apply_op_distinct:
  "distinct (map fst (loadedPlugins s)) \<Longrightarrow>
   distinct (map fst (loadedPlugins (apply_op op s)))"
  by (cases op) (simp_all add: LoadPlugin_distinct UnloadPlugin_distinct UnloadPlugins_empty)

lemma apply_ops_distinct:
  "distinct (map fst (loadedPlugins s)) \<Longrightarrow>
   distinct (map fst (loadedPlugins (apply_ops ops s)))"
  by (induction ops arbitrary: s) (simp_all add: apply_op_distinct)

lemma apply_op_keys:
  "fst ` set (loadedPlugins (apply_op op s))
     \<subseteq> fst ` set (loadedPlugins s) \<union> names_loaded [op]"
proof (cases op)
  case (OpLoad env fp)
  then show ?thesis using LoadPlugin_keys[of env fp s] by (auto split: if_splits)
next
  case (OpUnload n)
  then show ?thesis using delete_key_set[of n "loadedPlugins s"]
    by (auto simp: UnloadPlugin_def split: option.splits)
next
  case OpUnloadAll
  then show ?thesis by (simp add: UnloadPlugins_empty)
qed

lemma names_loaded_Cons: "names_loaded (op # ops) = names_loaded [op] \<union> names_loaded ops"
  by (cases op) simp_all

lemma apply_ops_keys:
  "fst ` set (loadedPlugins (apply_ops ops s))
     \<subseteq> fst ` set (loadedPlugins s) \<union> names_loaded ops"
proof (induction ops arbitrary: s)
  case Nil
  then show ?case by simp
next
  case (Cons op ops)
  have "fst ` set (loadedPlugins (apply_ops ops (apply_op op s)))
      \<subseteq> fst ` set (loadedPlugins (apply_op op s)) \<union> names_loaded ops"
    by (rule Cons.IH)
  also have "\<dots> \<subseteq> (fst ` set (loadedPlugins s) \<union> names_loaded [op]) \<union> names_loaded ops"
    using apply_op_keys[of op s] by blast
  finally show ?case using names_loaded_Cons[of op ops] by auto
qed

lemma finite_names_loaded: "finite (names_loaded ops)"
  by (induction ops rule: names_loaded.induct) simp_all

lemma apply_ops_count:
  "length (loadedPlugins (apply_ops ops PythonManager_new)) \<le> card (names_loaded ops)"
proof -
  let ?r = "loadedPlugins (apply_ops ops PythonManager_new)"
  have d: "distinct (map fst ?r)"
    by (rule apply_ops_distinct) (simp add: PythonManager_new_def)
  have "length ?r = card (set (map fst ?r))"
    using distinct_card[OF d] by simp
  also have "\<dots> \<le> card (names_loaded ops)"
    using apply_ops_keys[of ops PythonManager_new] finite_names_loaded
    by (intro card_mono) (simp_all add: PythonManager_new_def)
  finally show ?thesis .
qed

text \<open>
  C5. When the registry has an entry for the name of a source, loaded in particular,
  \<open>LoadPlugin\<close> returns true and changes nothing. Every sequence of loads and unloads keeps
  one entry for a name, and from the empty registry it leaves no more entries than the
  names it loaded.
\<close>

theorem LoadPlugin_idempotent:
  "(\<forall>info. map_of (loadedPlugins s) (path_stem file) = Some info \<and> loaded info
       \<longrightarrow> LoadPlugin env file s = (True, s))
   \<and> (distinct (map fst (loadedPlugins s))
       \<longrightarrow> distinct (map fst (loadedPlugins (apply_ops ops s))))
   \<and> length (loadedPlugins (apply_ops ops PythonManager_new)) \<le> card (names_loaded ops)"
  by (simp add: LoadPlugin_present apply_ops_distinct apply_ops_count)

text \<open>
  The registry holds \<open>alpha\<close>: loading it again returns true and leaves the manager as it
  was; loading it twice, unloading it and loading a source of the same name keeps the
  names distinct.
\<close>

theorem LoadPlugin_idempotent_witness:
  "map_of (loadedPlugins (manager_with
       [(''alpha'', \<lparr>filepath = ''PythonScripts/alpha.py'', name = ''alpha'',
                     instance_ptr = None, loaded = True\<rparr>)]))
     (path_stem ''PythonScripts/alpha.py'')
     = Some \<lparr>filepath = ''PythonScripts/alpha.py'', name = ''alpha'',
             instance_ptr = None, loaded = True\<rparr>
   \<and> LoadPlugin example_env ''PythonScripts/alpha.py'' (manager_with
       [(''alpha'', \<lparr>filepath = ''PythonScripts/alpha.py'', name = ''alpha'',
                     instance_ptr = None, loaded = True\<rparr>)])
     = (True, manager_with
       [(''alpha'', \<lparr>filepath = ''PythonScripts/alpha.py'', name = ''alpha'',
                     instance_ptr = None, loaded = True\<rparr>)])
   \<and> distinct (map fst (loadedPlugins (apply_ops
        [OpLoad example_env ''PythonScripts/alpha.py'',
         OpLoad example_env ''PythonScripts/alpha.py'',
         OpUnload ''alpha'',
         OpLoad example_env ''Other/alpha.py'',
         OpLoad example_env ''PythonScripts/gamma.py'']
        (manager_with
          [(''alpha'', \<lparr>filepath = ''PythonScripts/alpha.py'', name = ''alpha'',
                        instance_ptr = None, loaded = True\<rparr>)]))))
   \<and> length (loadedPlugins (apply_ops
        [OpLoad example_env ''PythonScripts/alpha.py'',
         OpLoad example_env ''PythonScripts/alpha.py'',
         OpUnload ''alpha'',
         OpLoad example_env ''Other/alpha.py'',
         OpLoad example_env ''PythonScripts/gamma.py'']
        PythonManager_new)) = 2"
  using LoadPlugin_idempotent[of
      "manager_with
         [(''alpha'', \<lparr>filepath = ''PythonScripts/alpha.py'', name = ''alpha'',
                       instance_ptr = None, loaded = True\<rparr>)]"
      "''PythonScripts/alpha.py''" example_env
      "[OpLoad example_env ''PythonScripts/alpha.py'',
        OpLoad example_env ''PythonScripts/alpha.py'',
        OpUnload ''alpha'',
        OpLoad example_env ''Other/alpha.py'',
        OpLoad example_env ''PythonScripts/gamma.py'']"]
  by (simp add: manager_with_def PythonManager_new_def LoadPlugin_def UnloadPlugin_def
      Let_def example_env_def env_without_def path_stem_def path_extension_def path_filename_def
      is_separator_def)

text \<open>
  C6, as the code has it. When the name is not in the registry and the import raises,
  \<open>LoadPlugin\<close> returns false, leaves the registry as it was (no entry is recorded for
  the name), and \<open>GetLastError\<close> gives the message with the path and the exception.
\<close>

theorem LoadPlugin_failure:
  assumes "map_of (loadedPlugins s) (path_stem file) = None"
    and "py_import env (path_stem file) = Inl e"
  shows "fst (LoadPlugin env file s) = False
       \<and> loadedPlugins (snd (LoadPlugin env file s)) = loadedPlugins s
       \<and> GetLastError (snd (LoadPlugin env file s))
           = ''Failed to load plugin '' @ file @ '': '' @ e"
  using assms by (simp add: LoadPlugin_def SetError_def GetLastError_def)

theorem LoadPlugin_failure_witness:
  "fst (LoadPlugin example_env ''PythonScripts/broken.py'' (manager_with [])) = False
   \<and> loadedPlugins (snd (LoadPlugin example_env ''PythonScripts/broken.py'' (manager_with [])))
       = []
   \<and> GetLastError (snd (LoadPlugin example_env ''PythonScripts/broken.py'' (manager_with [])))
       = ''Failed to load plugin PythonScripts/broken.py: ImportError''"
  using LoadPlugin_failure[of "manager_with []" "''PythonScripts/broken.py''" example_env
      "''ImportError''"]
  by (simp add: manager_with_def example_env_def env_without_def path_stem_def path_extension_def
      path_filename_def is_separator_def)

text \<open>
  The claim fails: after the failed load of \<open>broken.py\<close> the registry has no entry for
  \<open>broken\<close>.
\<close>

theorem LoadPlugin_failure_counterexample:
  "map_of (loadedPlugins
     (snd (LoadPlugin example_env ''PythonScripts/broken.py'' (manager_with [])))) ''broken''
   = None"
  by (simp add: LoadPlugin_def Let_def SetError_def manager_with_def example_env_def env_without_def
      path_stem_def path_extension_def path_filename_def is_separator_def)

lemma LoadPlugins_loop_acc:
  "LoadPlugins_loop env files acc s =
     (acc \<and> fst (LoadPlugins_loop env files True s), snd (LoadPlugins_loop env files True s))"
proof (induction files arbitrary: acc s)
  case Nil
  then show ?case by simp
next
  case (Cons f fs)
  obtain ok s' where l: "LoadPlugin env f s = (ok, s')" by (cases "LoadPlugin env f s")
  have a: "LoadPlugins_loop env (f # fs) acc s = LoadPlugins_loop env fs (ok \<and> acc) s'"
    using l by (cases ok) simp_all
  have b: "LoadPlugins_loop env (f # fs) True s = LoadPlugins_loop env fs ok s'"
    using l by (cases ok) simp_all
  have c: "LoadPlugins_loop env fs (ok \<and> acc) s' =
     ((ok \<and> acc) \<and> fst (LoadPlugins_loop env fs True s'), snd (LoadPlugins_loop env fs True s'))"
    by (rule Cons.IH)
  have d: "LoadPlugins_loop env fs ok s' =
     (ok \<and> fst (LoadPlugins_loop env fs True s'), snd (LoadPlugins_loop env fs True s'))"
    by (rule Cons.IH)
  show ?case unfolding a b c d by auto
qed

lemma LoadPlugins_loop_append:
  "LoadPlugins_loop env (xs @ ys) acc s =
     LoadPlugins_loop env ys (fst (LoadPlugins_loop env xs acc s))
       (snd (LoadPlugins_loop env xs acc s))"
proof (induction xs arbitrary: acc s)
  case Nil
  then show ?case by simp
next
  case (Cons f fs)
  obtain ok s' where l: "LoadPlugin env f s = (ok, s')" by (cases "LoadPlugin env f s")
  show ?case using l Cons.IH[of "if \<not> ok then False else acc" s'] by simp
qed

lemma LoadPlugins_loop_all:
  "fst (LoadPlugins_loop env files True s) =
     (\<forall>i<length files.
        fst (LoadPlugin env (files ! i) (snd (LoadPlugins_loop env (take i files) True s))))"
proof (induction files rule: rev_induct)
  case Nil
  then show ?case by simp
next
  case (snoc x xs)
  obtain ok s' where l: "LoadPlugin env x (snd (LoadPlugins_loop env xs True s)) = (ok, s')"
    by (cases "LoadPlugin env x (snd (LoadPlugins_loop env xs True s))")
  have step: "fst (LoadPlugins_loop env (xs @ [x]) True s) =
     (fst (LoadPlugins_loop env xs True s) \<and>
      fst (LoadPlugin env x (snd (LoadPlugins_loop env xs True s))))"
    unfolding LoadPlugins_loop_append using l by auto
  have "(\<forall>i<length (xs @ [x]).
          fst (LoadPlugin env ((xs @ [x]) ! i)
                 (snd (LoadPlugins_loop env (take i (xs @ [x])) True s))))
     = ((\<forall>i<length xs.
          fst (LoadPlugin env (xs ! i) (snd (LoadPlugins_loop env (take i xs) True s))))
        \<and> fst (LoadPlugin env x (snd (LoadPlugins_loop env xs True s))))"
    by (auto simp: less_Suc_eq nth_append)
  with step snoc.IH show ?case by simp
qed

lemma LoadPlugins_loop_keys:
  "fst ` set (loadedPlugins (snd (LoadPlugins_loop env files acc s))) =
     fst ` set (loadedPlugins s) \<union>
       {path_stem fp | fp. fp \<in> set files \<and> \<not> isl (py_import env (path_stem fp))}"
proof (induction files arbitrary: acc s)
  case Nil
  then show ?case by simp
next
  case (Cons f fs)
  obtain ok s' where l: "LoadPlugin env f s = (ok, s')" by (cases "LoadPlugin env f s")
  have k: "fst ` set (loadedPlugins s') = fst ` set (loadedPlugins s) \<union>
       (if \<not> isl (py_import env (path_stem f)) then {path_stem f} else {})"
    using LoadPlugin_keys[of env f s] l by simp
  show ?case using l Cons.IH[of "if \<not> ok then False else acc" s'] k by auto
qed

text \<open>
  C4. Without a running interpreter \<open>LoadPlugins\<close> returns false, sets the error
  \<open>Python not initialized\<close> and leaves the registry alone. With one, it returns true exactly
  when the load of every discovered file, each in the state the loads before it left,
  returned true; and every discovered file whose import succeeds has an entry at the
  end, whatever failed before it.
\<close>

theorem LoadPlugins_pass:
  "(\<not> pythonInitialized s \<longrightarrow>
      fst (LoadPlugins env dir s) = False
      \<and> loadedPlugins (snd (LoadPlugins env dir s)) = loadedPlugins s
      \<and> GetLastError (snd (LoadPlugins env dir s)) = ''Python not initialized'')
   \<and> (pythonInitialized s \<longrightarrow>
      fst (LoadPlugins env dir s) =
        (\<forall>i<length (DiscoverPluginFiles dir).
           fst (LoadPlugin env (DiscoverPluginFiles dir ! i)
                  (snd (LoadPlugins_loop env (take i (DiscoverPluginFiles dir)) True s))))
      \<and> (\<forall>fp \<in> set (DiscoverPluginFiles dir).
           \<not> isl (py_import env (path_stem fp))
           \<longrightarrow> map_of (loadedPlugins (snd (LoadPlugins env dir s))) (path_stem fp) \<noteq> None))"
proof (intro conjI impI ballI)
  fix fp assume init: "pythonInitialized s" and f: "fp \<in> set (DiscoverPluginFiles dir)"
    and ok: "\<not> isl (py_import env (path_stem fp))"
  have "path_stem fp
      \<in> fst ` set (loadedPlugins (snd (LoadPlugins_loop env (DiscoverPluginFiles dir) True s)))"
    unfolding LoadPlugins_loop_keys using f ok by blast
  then show "map_of (loadedPlugins (snd (LoadPlugins env dir s))) (path_stem fp) \<noteq> None"
    using init by (simp add: LoadPlugins_def map_of_eq_None_iff)
qed (simp_all add: LoadPlugins_def SetError_def GetLastError_def LoadPlugins_loop_all)

lemma example_dir_files:
  "DiscoverPluginFiles example_dir =
     [''PythonScripts/alpha.py'', ''PythonScripts/broken.py'', ''PythonScripts/gamma.py'']"
  by (simp add: DiscoverPluginFiles_def example_dir_def path_extension_def path_filename_def
      is_separator_def)

lemma example_stems:
  "path_stem ''PythonScripts/alpha.py'' = ''alpha''"
  "path_stem ''PythonScripts/broken.py'' = ''broken''"
  "path_stem ''PythonScripts/gamma.py'' = ''gamma''"
  by (simp_all add: path_stem_def path_extension_def path_filename_def is_separator_def)

text \<open>
  The example directory, in which the import of \<open>broken\<close> raises: the pass returns false,
  and \<open>gamma\<close>, which comes after \<open>broken\<close>, is loaded. On a manager that was not started
  the pass returns false with the error set.
\<close>

theorem LoadPlugins_pass_witness:
  "pythonInitialized (manager_with [])
   \<and> fst (LoadPlugins example_env example_dir (manager_with [])) = False
   \<and> map_of (loadedPlugins (snd (LoadPlugins example_env example_dir (manager_with []))))
        ''gamma'' \<noteq> None
   \<and> \<not> pythonInitialized PythonManager_new
   \<and> fst (LoadPlugins example_env example_dir PythonManager_new) = False
   \<and> GetLastError (snd (LoadPlugins example_env example_dir PythonManager_new))
       = ''Python not initialized''"
proof -
  have i: "pythonInitialized (manager_with [])" by (simp add: manager_with_def)
  have n: "\<not> pythonInitialized PythonManager_new" by (simp add: PythonManager_new_def)
  have b: "\<not> fst (LoadPlugin example_env (DiscoverPluginFiles example_dir ! 1)
      (snd (LoadPlugins_loop example_env (take 1 (DiscoverPluginFiles example_dir)) True
         (manager_with []))))"
    by (simp add: example_dir_files example_stems LoadPlugin_def Let_def example_env_def env_without_def
        manager_with_def)
  have g: "\<not> isl (py_import example_env (path_stem ''PythonScripts/gamma.py''))"
    by (simp add: example_stems example_env_def env_without_def)
  from LoadPlugins_pass[of "manager_with []" example_env example_dir] i
  have r: "fst (LoadPlugins example_env example_dir (manager_with [])) =
        (\<forall>i<length (DiscoverPluginFiles example_dir).
           fst (LoadPlugin example_env (DiscoverPluginFiles example_dir ! i)
                  (snd (LoadPlugins_loop example_env (take i (DiscoverPluginFiles example_dir))
                     True (manager_with [])))))"
    and a: "\<forall>fp \<in> set (DiscoverPluginFiles example_dir).
           \<not> isl (py_import example_env (path_stem fp))
           \<longrightarrow> map_of (loadedPlugins (snd (LoadPlugins example_env example_dir (manager_with []))))
                 (path_stem fp) \<noteq> None"
    by blast+
  have "\<not> fst (LoadPlugins example_env example_dir (manager_with []))"
  proof
    assume "fst (LoadPlugins example_env example_dir (manager_with []))"
    with r have "\<forall>i<length (DiscoverPluginFiles example_dir).
           fst (LoadPlugin example_env (DiscoverPluginFiles example_dir ! i)
                  (snd (LoadPlugins_loop example_env (take i (DiscoverPluginFiles example_dir))
                     True (manager_with []))))" by simp
    moreover have "1 < length (DiscoverPluginFiles example_dir)"
      by (simp add: example_dir_files)
    ultimately show False using b by blast
  qed
  moreover have "map_of (loadedPlugins
        (snd (LoadPlugins example_env example_dir (manager_with [])))) ''gamma'' \<noteq> None"
    using a g by (simp add: example_dir_files example_stems)
  moreover from LoadPlugins_pass[of PythonManager_new example_env example_dir] n
  have "fst (LoadPlugins example_env example_dir PythonManager_new) = False
      \<and> GetLastError (snd (LoadPlugins example_env example_dir PythonManager_new))
          = ''Python not initialized''"
    by blast
  ultimately show ?thesis using i n by simp
qed

section \<open>Discovery\<close>

lemma DiscoverPluginFiles_loop_eq:
  "DiscoverPluginFiles_loop entries acc = acc @ map entry_path (filter eligible entries)"
  by (induction entries arbitrary: acc) (auto simp: eligible_def split: list.splits)

text \<open>
  C8. For every listing of the plugin directory, \<open>DiscoverPluginFiles\<close> yields the paths
  of exactly the eligible entries (regular file, extension \<open>.py\<close>, filename not beginning
  with an underscore), in the order of the listing.
\<close>

theorem DiscoverPluginFiles_exact:
  "DiscoverPluginFiles (Some entries) = map entry_path (filter eligible entries)"
  by (simp add: DiscoverPluginFiles_def DiscoverPluginFiles_loop_eq)

text \<open>
  A directory with \<open>alpha.py\<close>, \<open>_private.py\<close> and \<open>beta.txt\<close>: the discovery yields
  \<open>alpha.py\<close> alone.
\<close>

theorem DiscoverPluginFiles_exact_witness:
  "DiscoverPluginFiles (Some
     [\<lparr>entry_path = ''PythonScripts/alpha.py'', is_regular_file = True\<rparr>,
      \<lparr>entry_path = ''PythonScripts/_private.py'', is_regular_file = True\<rparr>,
      \<lparr>entry_path = ''PythonScripts/beta.txt'', is_regular_file = True\<rparr>])
   = [''PythonScripts/alpha.py'']"
  using DiscoverPluginFiles_exact[of
     "[\<lparr>entry_path = ''PythonScripts/alpha.py'', is_regular_file = True\<rparr>,
       \<lparr>entry_path = ''PythonScripts/_private.py'', is_regular_file = True\<rparr>,
       \<lparr>entry_path = ''PythonScripts/beta.txt'', is_regular_file = True\<rparr>]"]
  by (simp add: eligible_def path_extension_def path_filename_def is_separator_def)

section \<open>Starting the interpreter\<close>




section \<open>The city wrapper without a city\<close>

text \<open>
  C10. Without a city (\<open>IsValid\<close> is false) the name is empty, population, money, date
  and time are 0, the mayor mode is false, and \<open>SetCityMoney\<close>, \<open>AddCityMoney\<close> and
  \<open>SetMayorMode\<close> return false and leave the wrapper as it was. In no state does one of
  these follow a null \<open>city\<close>.
\<close>

theorem CityWrapper_invalid:
  "(\<not> IsValid w \<longrightarrow>
      GetCityName h w = Inr [] \<and> GetCityPopulation h w = Inr 0 \<and> GetCityMoney h w = Inr 0
      \<and> GetCityDate h w = Inr 0 \<and> GetCityTime h w = Inr 0 \<and> GetMayorMode h w = Inr False
      \<and> SetCityMoney h amount w = Inr (False, w) \<and> AddCityMoney h delta w = Inr (False, w)
      \<and> SetMayorMode h enabled w = Inr (False, w))
   \<and> GetCityName h w \<noteq> Inl NullDereference \<and> GetCityPopulation h w \<noteq> Inl NullDereference
   \<and> GetCityMoney h w \<noteq> Inl NullDereference \<and> GetCityDate h w \<noteq> Inl NullDereference
   \<and> GetCityTime h w \<noteq> Inl NullDereference \<and> GetMayorMode h w \<noteq> Inl NullDereference
   \<and> SetCityMoney h amount w \<noteq> Inl NullDereference
   \<and> AddCityMoney h delta w \<noteq> Inl NullDereference
   \<and> SetMayorMode h enabled w \<noteq> Inl NullDereference"
  by (auto simp: IsValid_def deref_def GetCityName_def GetCityPopulation_def GetCityMoney_def
      GetCityDate_def GetCityTime_def GetMayorMode_def SetCityMoney_def AddCityMoney_def
      SetMayorMode_def Let_def split: option.splits sum.splits prod.splits bool.splits if_splits)

text \<open>The wrapper as its constructor leaves it, in the example game.\<close>

theorem CityWrapper_invalid_witness:
  "IsValid (CityWrapper_new :: 64 word CityWrapper) = False
   \<and> GetCityName example_host CityWrapper_new = Inr []
   \<and> GetCityPopulation example_host CityWrapper_new = Inr 0
   \<and> GetCityMoney example_host CityWrapper_new = Inr 0
   \<and> GetCityDate example_host CityWrapper_new = Inr 0
   \<and> GetCityTime example_host CityWrapper_new = Inr 0
   \<and> GetMayorMode example_host CityWrapper_new = Inr False
   \<and> SetCityMoney example_host 1000 CityWrapper_new = Inr (False, CityWrapper_new)
   \<and> AddCityMoney example_host (- 5) CityWrapper_new = Inr (False, CityWrapper_new)
   \<and> SetMayorMode example_host True CityWrapper_new = Inr (False, CityWrapper_new)"
  using CityWrapper_invalid[of "CityWrapper_new :: 64 word CityWrapper" example_host
      1000 "- 5" True]
  by (simp add: IsValid_def CityWrapper_new_def)

lemma city_wrapper_with_city:
  "GetCityMoney example_host \<lparr>city = Some (- 1), statsCacheValid = False\<rparr> = Inr 0"
  "GetCityMoney example_host \<lparr>city = Some 4294967301, statsCacheValid = False\<rparr> = Inr 5"
  "AddCityMoney example_host (- 5) \<lparr>city = Some 20, statsCacheValid = False\<rparr>
     = Inr (True, \<lparr>city = Some 15, statsCacheValid = False\<rparr>)"
  by (simp_all add: GetCityMoney_def AddCityMoney_def IsValid_def deref_def example_host_def
      word_sless_alt word_sle_eq)

end
